theory Spec2Isabelle
  imports Main "HOL-Library.Word" "HOL-Library.Code_Target_Numeral"
begin

section \<open>The camera server of esp32\_camera\_server.cpp\<close>

text \<open>
  The handlers of the camera server talk to three collaborators that are not part of the
  repository: the camera driver (\<open>esp_camera_fb_get\<close>, \<open>esp_camera_fb_return\<close>,
  \<open>frame2jpg\<close>, the sensor's setters), the HTTP server of ESP-IDF (\<open>httpd_resp_*\<close>,
  \<open>httpd_query_key_value\<close>) and the C library. A handler is modelled as a function from
  what these collaborators answer (an environment record) to the trace of calls it makes,
  each call recorded with its arguments (the calls of the camera driver and the chunk
  writes also with their answers), and to the value it returns.
\<close>

subsection \<open>Basic types\<close>

text \<open>On the ESP32 \<open>esp_err_t\<close> is \<open>int\<close> and \<open>size_t\<close> is an unsigned integer of 32 bits.\<close>

type_synonym esp_err_t = int
type_synonym size_t = "32 word"

definition ESP_OK :: esp_err_t where
  "ESP_OK = 0"

definition ESP_FAIL :: esp_err_t where
  "ESP_FAIL = - 1"

datatype pixformat_t =
    PIXFORMAT_RGB565
  | PIXFORMAT_YUV422
  | PIXFORMAT_GRAYSCALE
  | PIXFORMAT_JPEG
  | PIXFORMAT_RGB888
  | PIXFORMAT_RAW
  | PIXFORMAT_RGB444
  | PIXFORMAT_RGB555

text \<open>
  A frame buffer as the driver hands it out: \<open>buf\<close> is the memory \<open>fb->buf\<close> points to,
  \<open>len\<close> the field \<open>fb->len\<close>. The other fields (width, height, timestamp) are never
  read by the server.
\<close>

record camera_fb_t =
  buf :: string
  len :: size_t
  format :: pixformat_t

text \<open>The memory blocks the server hands to \<open>free\<close>.\<close>

datatype heap_block =
    Jpg_buf string
  | Query_buf

datatype event =
    Esp_camera_fb_get "camera_fb_t option"
  | Esp_camera_fb_return camera_fb_t
  | Frame2jpg camera_fb_t nat "(string \<times> size_t) option"
  | Frame2jpg_cb camera_fb_t nat
  | Malloc nat bool
  | Free heap_block
  | Httpd_resp_set_type string
  | Httpd_resp_set_hdr string string
  | Httpd_resp_send "string option" size_t
  | Httpd_resp_send_chunk "string option" size_t esp_err_t
  | Httpd_resp_send_404
  | Httpd_resp_send_500
  | Ledc_write nat "32 word"
  | Serial_println string
  | Serial_printf_JPG size_t

subsection \<open>Text constants and number formatting\<close>

definition CRLF :: string where
  "CRLF = [CHR 0x0D, CHR 0x0A]"

definition PART_BOUNDARY :: string where
  "PART_BOUNDARY = ''123456789000000000000987654321''"

definition STREAM_CONTENT_TYPE :: string where
  "STREAM_CONTENT_TYPE = ''multipart/x-mixed-replace;boundary='' @ PART_BOUNDARY"

definition STREAM_BOUNDARY :: string where
  "STREAM_BOUNDARY = CRLF @ ''--'' @ PART_BOUNDARY @ CRLF"

definition digit_char :: "nat \<Rightarrow> char" where
  "digit_char d = ''0123456789'' ! d"

text \<open>The conversion \<open>%u\<close> of printf: the decimal digits of an unsigned value.\<close>

fun fmt_u :: "nat \<Rightarrow> string" where
  "fmt_u n = (if n < 10 then [digit_char n] else fmt_u (n div 10) @ [digit_char (n mod 10)])"

text \<open>The conversion \<open>%d\<close> of printf.\<close>

definition fmt_d :: "int \<Rightarrow> string" where
  "fmt_d i = (if i < 0 then CHR ''-'' # fmt_u (nat (- i)) else fmt_u (nat i))"

text \<open>The format \<open>_STREAM_PART\<close>, filled in with a \<open>size_t\<close> printed by \<open>%u\<close>.\<close>

definition STREAM_PART :: "size_t \<Rightarrow> string" where
  "STREAM_PART n =
     ''Content-Type: image/jpeg'' @ CRLF @ ''Content-Length: '' @ fmt_u (unat n) @ CRLF @ CRLF"

text \<open>
  \<open>snprintf(dst, size, ...)\<close> on the formatted text: it stores at most \<open>size - 1\<close>
  characters and returns the length the whole text would have had.
\<close>

definition snprintf :: "nat \<Rightarrow> string \<Rightarrow> string \<times> nat" where
  "snprintf n full = (take (n - 1) full, length full)"

subsection \<open>The streaming loop\<close>

text \<open>
  The local variables of \<open>stream_handler\<close> that live across the statements of the loop.
  A pointer is an option, \<open>None\<close> for \<open>NULL\<close>.
\<close>

record loop_state =
  fb :: "camera_fb_t option"
  res :: esp_err_t
  jpg_buf_len :: size_t
  jpg_buf :: "string option"

text \<open>
  What the collaborators answer during one iteration: the frame \<open>esp_camera_fb_get\<close>
  returns, what \<open>frame2jpg\<close> produces if it is called (\<open>None\<close>: it returns false and
  leaves its output arguments alone), and what the three calls of
  \<open>httpd_resp_send_chunk\<close> return if they are made.
\<close>

record iter_env =
  fb_get :: "camera_fb_t option"
  jpg_out :: "(string \<times> size_t) option"
  send_hdr :: esp_err_t
  send_jpg :: esp_err_t
  send_bnd :: esp_err_t

text \<open>Lines 94 to 111: acquire a frame and make sure it is JPEG.\<close>

definition acquire :: "iter_env \<Rightarrow> loop_state \<Rightarrow> event list \<times> loop_state" where
  "acquire e st =
     (case fb_get e of
        None \<Rightarrow>
          ([Esp_camera_fb_get None, Serial_println ''Camera capture failed''],
           st\<lparr>fb := None, res := ESP_FAIL\<rparr>)
      | Some f \<Rightarrow>
          if format f \<noteq> PIXFORMAT_JPEG then
            (case jpg_out e of
               None \<Rightarrow>
                 ([Esp_camera_fb_get (Some f), Frame2jpg f 80 None, Esp_camera_fb_return f,
                   Serial_println ''JPEG compression failed''],
                  st\<lparr>fb := None, res := ESP_FAIL\<rparr>)
             | Some (b, n) \<Rightarrow>
                 ([Esp_camera_fb_get (Some f), Frame2jpg f 80 (Some (b, n)),
                   Esp_camera_fb_return f],
                  st\<lparr>fb := None, jpg_buf := Some b, jpg_buf_len := n\<rparr>))
          else
            ([Esp_camera_fb_get (Some f)],
             st\<lparr>fb := Some f, jpg_buf_len := len f, jpg_buf := Some (buf f)\<rparr>))"

text \<open>Lines 112 to 115: format the part header into \<open>part_buf\<close> and send it.\<close>

definition write_part :: "iter_env \<Rightarrow> loop_state \<Rightarrow> event list \<times> loop_state" where
  "write_part e st =
     (if res st = ESP_OK then
        (let (part_buf, hlen) = snprintf 64 (STREAM_PART (jpg_buf_len st))
         in ([Httpd_resp_send_chunk (Some part_buf) (of_nat hlen) (send_hdr e)],
             st\<lparr>res := send_hdr e\<rparr>))
      else ([], st))"

text \<open>Lines 116 to 118: send the JPEG bytes.\<close>

definition write_jpg :: "iter_env \<Rightarrow> loop_state \<Rightarrow> event list \<times> loop_state" where
  "write_jpg e st =
     (if res st = ESP_OK then
        ([Httpd_resp_send_chunk (jpg_buf st) (jpg_buf_len st) (send_jpg e)],
         st\<lparr>res := send_jpg e\<rparr>)
      else ([], st))"

text \<open>Lines 119 to 121: send the boundary; \<open>strlen\<close> gives its length.\<close>

definition write_boundary :: "iter_env \<Rightarrow> loop_state \<Rightarrow> event list \<times> loop_state" where
  "write_boundary e st =
     (if res st = ESP_OK then
        ([Httpd_resp_send_chunk (Some STREAM_BOUNDARY) (of_nat (length STREAM_BOUNDARY))
            (send_bnd e)],
         st\<lparr>res := send_bnd e\<rparr>)
      else ([], st))"

text \<open>Lines 122 to 129: give the frame back, or free the buffer of the encoder.\<close>

definition release :: "loop_state \<Rightarrow> event list \<times> loop_state" where
  "release st =
     (case fb st of
        Some f \<Rightarrow> ([Esp_camera_fb_return f], st\<lparr>fb := None, jpg_buf := None\<rparr>)
      | None \<Rightarrow>
          (case jpg_buf st of
             Some b \<Rightarrow> ([Free (Jpg_buf b)], st\<lparr>jpg_buf := None\<rparr>)
           | None \<Rightarrow> ([], st)))"

text \<open>The body of the loop, lines 94 to 129, with the calls it makes.\<close>

definition stream_iter :: "iter_env \<Rightarrow> loop_state \<Rightarrow> event list \<times> loop_state" where
  "stream_iter e st =
     (let (ev1, s1) = acquire e st;
          (ev2, s2) = write_part e s1;
          (ev3, s3) = write_jpg e s2;
          (ev4, s4) = write_boundary e s3;
          (ev5, s5) = release s4
      in (ev1 @ ev2 @ ev3 @ ev4 @ ev5, s5))"

text \<open>
  The loop \<open>while(true)\<close> never ends by itself. It is run against a list of iteration
  environments: the result is the trace of every iteration that ran and the value the
  loop left with, \<open>None\<close> when the list is used up and the loop is still going.
\<close>

fun stream_loop :: "iter_env list \<Rightarrow> loop_state \<Rightarrow> event list list \<times> esp_err_t option" where
  "stream_loop [] st = ([], None)"
| "stream_loop (e # es) st =
     (let (evs, st') = stream_iter e st
      in if res st' \<noteq> ESP_OK then ([evs], Some (res st'))
         else (let (rest, r) = stream_loop es st' in (evs # rest, r)))"

record stream_env =
  set_type_res :: esp_err_t
  iters :: "iter_env list"

text \<open>The locals of \<open>stream_handler\<close> when the loop is entered (lines 80 to 91).\<close>

definition stream_init :: loop_state where
  "stream_init = \<lparr>fb = None, res = ESP_OK, jpg_buf_len = 0, jpg_buf = None\<rparr>"

definition stream_handler :: "stream_env \<Rightarrow> event list \<times> esp_err_t option" where
  "stream_handler env =
     (if set_type_res env \<noteq> ESP_OK then
        ([Httpd_resp_set_type STREAM_CONTENT_TYPE], Some (set_type_res env))
      else
        (let (its, r) = stream_loop (iters env) (stream_init\<lparr>res := set_type_res env\<rparr>)
         in ([Httpd_resp_set_type STREAM_CONTENT_TYPE,
              Httpd_resp_set_hdr ''Access-Control-Allow-Origin'' ''*''] @ concat its, r)))"

subsection \<open>The capture handler\<close>

text \<open>
  The callback \<open>jpg_encode_stream\<close> (lines 33 to 43). It gets the field \<open>j->len\<close>, the
  arguments \<open>index\<close>, \<open>data\<close>, \<open>len\<close> and what \<open>httpd_resp_send_chunk\<close> answers; it
  gives the call it makes, the new \<open>j->len\<close> and the value it returns.
\<close>

definition jpg_encode_stream ::
  "size_t \<Rightarrow> size_t \<Rightarrow> string option \<Rightarrow> size_t \<Rightarrow> esp_err_t \<Rightarrow> event \<times> size_t \<times> size_t" where
  "jpg_encode_stream j_len index data n sent =
     (let j0 = (if index = 0 then 0 else j_len)
      in if sent \<noteq> ESP_OK then (Httpd_resp_send_chunk data n sent, j0, 0)
         else (Httpd_resp_send_chunk data n sent, j0 + n, n))"

text \<open>
  The encoder \<open>frame2jpg_cb\<close> of the camera driver hands the blocks of the JPEG to the
  callback one after the other, each at the offset that the values returned so far add
  up to. The blocks, and what the HTTP server answers to each, come from the environment.
\<close>

fun frame2jpg_cb :: "(string option \<times> size_t \<times> esp_err_t) list \<Rightarrow> size_t \<Rightarrow> size_t \<Rightarrow>
    event list \<times> size_t" where
  "frame2jpg_cb [] index j_len = ([], j_len)"
| "frame2jpg_cb ((d, n, sent) # blocks) index j_len =
     (let (ev, j', ret) = jpg_encode_stream j_len index d n sent;
          (evs, j'') = frame2jpg_cb blocks (index + ret) j'
      in (ev # evs, j''))"

record capture_env =
  cap_fb :: "camera_fb_t option"
  cap_send :: esp_err_t
  cap_blocks :: "(string option \<times> size_t \<times> esp_err_t) list"
  cap_converted :: bool
  cap_send_last :: esp_err_t

text \<open>
  Lines 46 to 76. The two readings of the timer and the elapsed time in the log line are
  left out; the log line keeps its first argument, \<open>fb_len\<close>.
\<close>

definition capture_handler :: "capture_env \<Rightarrow> event list \<times> esp_err_t" where
  "capture_handler env =
     (case cap_fb env of
        None \<Rightarrow>
          ([Esp_camera_fb_get None, Serial_println ''Camera capture failed'',
            Httpd_resp_send_500], ESP_FAIL)
      | Some f \<Rightarrow>
          (let pre = [Esp_camera_fb_get (Some f),
                      Httpd_resp_set_type ''image/jpeg'',
                      Httpd_resp_set_hdr ''Content-Disposition'' ''inline; filename=capture.jpg'',
                      Httpd_resp_set_hdr ''Access-Control-Allow-Origin'' ''*'']
           in if format f = PIXFORMAT_JPEG then
                (pre @ [Httpd_resp_send (Some (buf f)) (len f), Esp_camera_fb_return f,
                       Serial_printf_JPG (len f)],
                 cap_send env)
              else
                (let (evs, j_len) = frame2jpg_cb (cap_blocks env) 0 0
                 in (pre @ [Frame2jpg_cb f 80] @ evs @
                       [Httpd_resp_send_chunk None 0 (cap_send_last env),
                        Esp_camera_fb_return f, Serial_printf_JPG j_len],
                     if cap_converted env then ESP_OK else ESP_FAIL))))"

subsection \<open>Sensor, globals and the control handler\<close>

text \<open>
  The part of \<open>sensor_t\<close> the server uses: the pixel format, the status fields it prints
  and the four setters it calls. A setter of the driver answers with its result code and
  the status it leaves behind. \<open>quality\<close> is a \<open>uint8_t\<close>; \<open>brightness\<close> and \<open>contrast\<close>
  are \<open>int8_t\<close>, read with \<open>sint\<close>.
\<close>

record camera_status_t =
  framesize :: nat
  quality :: "8 word"
  brightness :: "8 word"
  contrast :: "8 word"

record sensor_t =
  pixformat :: pixformat_t
  status :: camera_status_t
  set_framesize :: "camera_status_t \<Rightarrow> int \<Rightarrow> int \<times> camera_status_t"
  set_quality :: "camera_status_t \<Rightarrow> int \<Rightarrow> int \<times> camera_status_t"
  set_contrast :: "camera_status_t \<Rightarrow> int \<Rightarrow> int \<times> camera_status_t"
  set_brightness :: "camera_status_t \<Rightarrow> int \<Rightarrow> int \<times> camera_status_t"

text \<open>
  The state the handlers share: the sensor behind \<open>esp_camera_sensor_get\<close>, the three
  readings declared \<open>extern\<close>, and the static buffer of \<open>status_handler\<close>. A \<open>float\<close> is
  a value of the type \<open>'f\<close>; how \<open>%.1f\<close> prints it is a parameter of \<open>status_handler\<close>.
\<close>

record 'f globals =
  sensor :: sensor_t
  temperature :: 'f
  humidity :: 'f
  soilMoisture :: int
  json_response :: string

definition digit_val :: "char \<Rightarrow> nat" where
  "digit_val c = of_char c - 48"

definition is_digit :: "char \<Rightarrow> bool" where
  "is_digit c = (c \<in> set ''0123456789'')"

definition parse_dec :: "string \<Rightarrow> nat" where
  "parse_dec ds = foldl (\<lambda>a c. 10 * a + digit_val c) 0 ds"

definition isspace :: "char \<Rightarrow> bool" where
  "isspace c = (c \<in> set [CHR '' '', CHR 0x09, CHR 0x0A, CHR 0x0B, CHR 0x0C, CHR 0x0D])"

text \<open>
  \<open>strtol(str, NULL, 10)\<close>: white space, an optional sign, then the digits up to the first
  other character. \<open>long\<close> has 32 bits on the ESP32, and a value out of its range comes
  back as the nearest end of the range.
\<close>

definition strtol :: "string \<Rightarrow> int" where
  "strtol str =
     (let s = dropWhile isspace str;
          v = (case s of
                 [] \<Rightarrow> 0
               | c # cs \<Rightarrow>
                   if c = CHR ''-'' then - int (parse_dec (takeWhile is_digit cs))
                   else if c = CHR ''+'' then int (parse_dec (takeWhile is_digit cs))
                   else int (parse_dec (takeWhile is_digit s)))
      in max (- (2 ^ 31)) (min (2 ^ 31 - 1) v))"

text \<open>\<open>atoi\<close> of the C library is \<open>(int) strtol(str, NULL, 10)\<close>; an \<open>int\<close> has 32 bits.\<close>

definition atoi :: "string \<Rightarrow> 32 word" where
  "atoi str = word_of_int (strtol str)"

text \<open>
  What the HTTP server answers to \<open>cmd_handler\<close>: the length of the query, whether
  \<open>malloc\<close> gives a buffer, the result of copying the query, and for the keys \<open>var\<close> and
  \<open>val\<close> the result of \<open>httpd_query_key_value\<close> with the text it stored.
\<close>

record cmd_env =
  query_len :: size_t
  malloc_ok :: bool
  query_str :: esp_err_t
  query_var :: "esp_err_t \<times> string"
  query_val :: "esp_err_t \<times> string"
  send_res :: esp_err_t

text \<open>
  Lines 185 to 202: the chain of comparisons, with the sensor it leaves. A setter gets the
  \<open>int\<close> as the signed value of \<open>val\<close>; \<open>ledcWrite\<close> takes it as a \<open>uint32_t\<close>.
\<close>

definition apply_var ::
  "string \<Rightarrow> 32 word \<Rightarrow> sensor_t \<Rightarrow> event list \<times> int \<times> sensor_t" where
  "apply_var variable val s =
     (if variable = ''framesize'' then
        (if pixformat s = PIXFORMAT_JPEG then
           (let (r, st) = set_framesize s (status s) (sint val) in ([], r, s\<lparr>status := st\<rparr>))
         else ([], 0, s))
      else if variable = ''quality'' then
        (let (r, st) = set_quality s (status s) (sint val) in ([], r, s\<lparr>status := st\<rparr>))
      else if variable = ''contrast'' then
        (let (r, st) = set_contrast s (status s) (sint val) in ([], r, s\<lparr>status := st\<rparr>))
      else if variable = ''brightness'' then
        (let (r, st) = set_brightness s (status s) (sint val) in ([], r, s\<lparr>status := st\<rparr>))
      else if variable = ''flash'' then ([Ledc_write 7 val], 0, s)
      else ([], - 1, s))"

text \<open>Lines 181 to 209, once \<open>variable\<close> and \<open>value\<close> are filled in.\<close>

definition run_cmd ::
  "cmd_env \<Rightarrow> string \<Rightarrow> string \<Rightarrow> 'f globals \<Rightarrow> event list \<times> esp_err_t \<times> 'f globals" where
  "run_cmd env variable value g =
     (let val = atoi value;
          (evs, r, s) = apply_var variable val (sensor g)
      in if r \<noteq> 0 then (evs @ [Httpd_resp_send_500], send_res env, g\<lparr>sensor := s\<rparr>)
         else (evs @ [Httpd_resp_set_hdr ''Access-Control-Allow-Origin'' ''*'',
                      Httpd_resp_send None 0],
               send_res env, g\<lparr>sensor := s\<rparr>))"

text \<open>Lines 149 to 210.\<close>

definition cmd_handler :: "cmd_env \<Rightarrow> 'f globals \<Rightarrow> event list \<times> esp_err_t \<times> 'f globals" where
  "cmd_handler env g =
     (let buf_len = query_len env + 1
      in if 1 < buf_len then
           (if \<not> malloc_ok env then
              ([Malloc (unat buf_len) False, Httpd_resp_send_500], ESP_FAIL, g)
            else if query_str env = ESP_OK then
              (if fst (query_var env) = ESP_OK \<and> fst (query_val env) = ESP_OK then
                 (let (evs, r, g') = run_cmd env (snd (query_var env)) (snd (query_val env)) g
                  in ([Malloc (unat buf_len) True, Free Query_buf] @ evs, r, g'))
               else
                 ([Malloc (unat buf_len) True, Free Query_buf, Httpd_resp_send_404],
                  ESP_FAIL, g))
            else
              ([Malloc (unat buf_len) True, Free Query_buf, Httpd_resp_send_404], ESP_FAIL, g))
         else ([Httpd_resp_send_404], ESP_FAIL, g))"

subsection \<open>Status, sensors and index page\<close>

definition DQUOTE :: char where
  "DQUOTE = CHR 0x22"

text \<open>One \<open>"name":\<close> of the format strings of lines 219 to 225.\<close>

definition json_key :: "string \<Rightarrow> string" where
  "json_key name = DQUOTE # name @ [DQUOTE, CHR '':'']"

text \<open>
  Lines 216 to 227: the text that the seven \<open>sprintf\<close> calls leave in \<open>json_response\<close>.
  \<open>fmt_f\<close> is the conversion \<open>%.1f\<close>; on the floats of the C program it is \<open>fmt_f1\<close>
  below.
\<close>

definition status_json :: "('f \<Rightarrow> string) \<Rightarrow> 'f globals \<Rightarrow> string" where
  "status_json fmt_f g =
     ''{'' @
     json_key ''framesize'' @ fmt_u (framesize (status (sensor g))) @ '','' @
     json_key ''quality'' @ fmt_u (unat (quality (status (sensor g)))) @ '','' @
     json_key ''brightness'' @ fmt_d (sint (brightness (status (sensor g)))) @ '','' @
     json_key ''contrast'' @ fmt_d (sint (contrast (status (sensor g)))) @ '','' @
     json_key ''temperature'' @ fmt_f (temperature g) @ '','' @
     json_key ''humidity'' @ fmt_f (humidity g) @ '','' @
     json_key ''soilMoisture'' @ fmt_d (soilMoisture g) @
     ''}''"

text \<open>Lines 213 to 232; the last argument is what \<open>httpd_resp_send\<close> answers.\<close>

definition status_handler ::
  "('f \<Rightarrow> string) \<Rightarrow> esp_err_t \<Rightarrow> 'f globals \<Rightarrow> event list \<times> esp_err_t \<times> 'f globals" where
  "status_handler fmt_f sent g =
     (let g' = g\<lparr>json_response := status_json fmt_f g\<rparr>
      in ([Httpd_resp_set_type ''application/json'',
           Httpd_resp_set_hdr ''Access-Control-Allow-Origin'' ''*'',
           Httpd_resp_send (Some (json_response g')) (of_nat (length (json_response g')))],
          sent, g'))"

text \<open>
  Lines 138 to 146. \<open>getSensorJson\<close> is declared \<open>extern\<close>; the text it returns is the
  first argument.
\<close>

definition sensors_handler :: "string \<Rightarrow> esp_err_t \<Rightarrow> event list \<times> esp_err_t" where
  "sensors_handler sensorData sent =
     ([Httpd_resp_set_type ''application/json'',
       Httpd_resp_set_hdr ''Access-Control-Allow-Origin'' ''*'',
       Httpd_resp_set_hdr ''Cache-Control'' ''no-cache'',
       Httpd_resp_send (Some sensorData) (of_nat (length sensorData))], sent)"

text \<open>Lines 397 to 400; the page \<open>INDEX_HTML\<close> is the first argument.\<close>

definition index_handler :: "string \<Rightarrow> esp_err_t \<Rightarrow> event list \<times> esp_err_t" where
  "index_handler INDEX_HTML sent =
     ([Httpd_resp_set_type ''text/html'',
       Httpd_resp_send (Some INDEX_HTML) (of_nat (length INDEX_HTML))], sent)"

subsection \<open>Floats and the conversion \<open>%.1f\<close>\<close>

text \<open>
  A \<open>float\<close>: a finite value \<open>m * 2 ^ e\<close> with its sign bit (\<open>True\<close> for minus), an
  infinity or a NaN, each with its sign bit.
\<close>

datatype c_float =
    Finite bool nat int
  | Infinity bool
  | NaN bool

text \<open>The value \<open>m * 2 ^ e\<close> in tenths, rounded to the nearest, a tie to the even one.\<close>

definition tenths :: "nat \<Rightarrow> int \<Rightarrow> nat" where
  "tenths m e =
     (if 0 \<le> e then m * 2 ^ nat e * 10
      else (let d = 2 ^ nat (- e); q = (m * 10) div d; r = (m * 10) mod d
            in if d < 2 * r \<or> (2 * r = d \<and> odd q) then q + 1 else q))"

text \<open>What \<open>printf\<close> writes for \<open>%.1f\<close>.\<close>

fun fmt_f1 :: "c_float \<Rightarrow> string" where
  "fmt_f1 (Finite s m e) =
     (if s then ''-'' else []) @ fmt_u (tenths m e div 10) @ ''.'' @
     [digit_char (tenths m e mod 10)]"
| "fmt_f1 (Infinity s) = (if s then ''-inf'' else ''inf'')"
| "fmt_f1 (NaN s) = (if s then ''-nan'' else ''nan'')"

fun is_finite :: "c_float \<Rightarrow> bool" where
  "is_finite (Finite s m e) = True"
| "is_finite _ = False"

subsection \<open>Reading a trace\<close>

text \<open>The chunk writes of a trace, in order: buffer, length and answer of each.\<close>

fun chunk_of :: "event \<Rightarrow> (string option \<times> size_t \<times> esp_err_t) list" where
  "chunk_of (Httpd_resp_send_chunk d n r) = [(d, n, r)]"
| "chunk_of _ = []"

definition chunks :: "event list \<Rightarrow> (string option \<times> size_t \<times> esp_err_t) list" where
  "chunks evs = concat (map chunk_of evs)"

text \<open>The frames given back to the driver, and the blocks given to \<open>free\<close>.\<close>

fun returned_of :: "event \<Rightarrow> camera_fb_t list" where
  "returned_of (Esp_camera_fb_return f) = [f]"
| "returned_of _ = []"

definition returned :: "event list \<Rightarrow> camera_fb_t list" where
  "returned evs = concat (map returned_of evs)"

fun freed_of :: "event \<Rightarrow> heap_block list" where
  "freed_of (Free b) = [b]"
| "freed_of _ = []"

definition freed :: "event list \<Rightarrow> heap_block list" where
  "freed evs = concat (map freed_of evs)"

text \<open>The bodies handed to \<open>httpd_resp_send\<close>.\<close>

fun body_of :: "event \<Rightarrow> (string option \<times> size_t) list" where
  "body_of (Httpd_resp_send b n) = [(b, n)]"
| "body_of _ = []"

definition bodies :: "event list \<Rightarrow> (string option \<times> size_t) list" where
  "bodies evs = concat (map body_of evs)"

text \<open>
  A call that reports a failure: no frame, no JPEG, or a chunk write that does not answer
  \<open>ESP_OK\<close>.
\<close>

fun failed :: "event \<Rightarrow> bool" where
  "failed (Esp_camera_fb_get None) = True"
| "failed (Frame2jpg f q None) = True"
| "failed (Httpd_resp_send_chunk d n r) = (r \<noteq> ESP_OK)"
| "failed _ = False"

definition failure_recorded :: "event list \<Rightarrow> bool" where
  "failure_recorded evs = list_ex failed evs"

text \<open>
  The status line and header fields that the HTTP server of ESP-IDF puts in front of what
  a handler sends. The content type starts as \<open>text/html\<close> and the status as \<open>200 OK\<close>;
  \<open>httpd_resp_set_type\<close> and \<open>httpd_resp_set_hdr\<close> change what later sends carry;
  \<open>httpd_resp_send\<close>, \<open>httpd_resp_send_404\<close>, \<open>httpd_resp_send_500\<close> and the first
  \<open>httpd_resp_send_chunk\<close> of a request each put out one head.
\<close>

record http_head =
  status_line :: string
  content_type :: string
  hdrs :: "(string \<times> string) list"

fun heads :: "string \<Rightarrow> (string \<times> string) list \<Rightarrow> bool \<Rightarrow> event list \<Rightarrow> http_head list" where
  "heads t hs sent [] = []"
| "heads t hs sent (Httpd_resp_set_type t' # evs) = heads t' hs sent evs"
| "heads t hs sent (Httpd_resp_set_hdr f v # evs) = heads t (hs @ [(f, v)]) sent evs"
| "heads t hs sent (Httpd_resp_send b n # evs) =
     \<lparr>status_line = ''200 OK'', content_type = t, hdrs = hs\<rparr> # heads t hs True evs"
| "heads t hs sent (Httpd_resp_send_chunk d n r # evs) =
     (if sent then heads t hs sent evs
      else \<lparr>status_line = ''200 OK'', content_type = t, hdrs = hs\<rparr> # heads t hs True evs)"
| "heads t hs sent (Httpd_resp_send_404 # evs) =
     \<lparr>status_line = ''404 Not Found'', content_type = ''text/html'', hdrs = hs\<rparr> #
     heads t hs True evs"
| "heads t hs sent (Httpd_resp_send_500 # evs) =
     \<lparr>status_line = ''500 Internal Server Error'', content_type = ''text/html'', hdrs = hs\<rparr> #
     heads t hs True evs"
| "heads t hs sent (_ # evs) = heads t hs sent evs"

definition responses :: "event list \<Rightarrow> http_head list" where
  "responses evs = heads ''text/html'' [] False evs"

definition has_cors :: "http_head \<Rightarrow> bool" where
  "has_cors h = ((''Access-Control-Allow-Origin'', ''*'') \<in> set (hdrs h))"

subsection \<open>Reading a part header and a JSON object\<close>




fun split_on :: "char \<Rightarrow> string \<Rightarrow> string list" where
  "split_on c [] = [[]]"
| "split_on c (x # xs) =
     (if x = c then [] # split_on c xs
      else (case split_on c xs of [] \<Rightarrow> [[x]] | y # ys \<Rightarrow> (x # y) # ys))"

text \<open>
  A JSON number: an optional minus, then \<open>0\<close> or digits that do not start with \<open>0\<close>, then
  an optional fraction (a point and digits) and an optional exponent.
\<close>

definition json_exp :: "string \<Rightarrow> bool" where
  "json_exp r =
     (case r of
        [] \<Rightarrow> True
      | c # cs \<Rightarrow>
          (c = CHR ''e'' \<or> c = CHR ''E'') \<and>
          (let ds = (case cs of
                       [] \<Rightarrow> []
                     | s # t \<Rightarrow> if s = CHR ''+'' \<or> s = CHR ''-'' then t else cs)
           in ds \<noteq> [] \<and> list_all is_digit ds))"

definition json_frac :: "string \<Rightarrow> bool" where
  "json_frac r =
     (case r of
        [] \<Rightarrow> True
      | c # cs \<Rightarrow>
          if c = CHR ''.'' then
            takeWhile is_digit cs \<noteq> [] \<and> json_exp (dropWhile is_digit cs)
          else json_exp r)"

definition json_number :: "string \<Rightarrow> bool" where
  "json_number s =
     (let u = (case s of [] \<Rightarrow> [] | c # cs \<Rightarrow> if c = CHR ''-'' then cs else s);
          ip = takeWhile is_digit u
      in ip \<noteq> [] \<and> (if hd ip = CHR ''0'' then ip = ''0'' else True) \<and>
         json_frac (dropWhile is_digit u))"

text \<open>A character of a JSON string that needs no escape.\<close>

definition json_char :: "char \<Rightarrow> bool" where
  "json_char c = (c \<noteq> DQUOTE \<and> c \<noteq> CHR 0x5C \<and> (32::nat) \<le> of_char c)"

definition json_string :: "string \<Rightarrow> bool" where
  "json_string v =
     (case v of
        [] \<Rightarrow> False
      | q # r \<Rightarrow> q = DQUOTE \<and> r \<noteq> [] \<and> last r = DQUOTE \<and> list_all json_char (butlast r))"

text \<open>A JSON value that is not an array or an object: a number, a literal or a string.\<close>

definition json_value :: "string \<Rightarrow> bool" where
  "json_value v =
     (json_number v \<or> v = ''true'' \<or> v = ''false'' \<or> v = ''null'' \<or> json_string v)"

text \<open>
  The name of a member \<open>"name":value\<close>; \<open>None\<close> if the name is not a JSON string or the
  value is not a JSON value.
\<close>

definition member_key :: "string \<Rightarrow> string option" where
  "member_key m =
     (case m of
        [] \<Rightarrow> None
      | q # rest \<Rightarrow>
          if q = DQUOTE then
            (let k = takeWhile (\<lambda>c. c \<noteq> DQUOTE) rest
             in case dropWhile (\<lambda>c. c \<noteq> DQUOTE) rest of
                  q' # col # v \<Rightarrow>
                    if col = CHR '':'' \<and> list_all json_char k \<and> json_value v then Some k
                    else None
                | _ \<Rightarrow> None)
          else None)"

text \<open>
  The names of the members of a JSON object written without white space, such as
  \<open>{"a":1,"b":2.5}\<close>, in the order they are written, when each value is a number, a
  literal or a string with no comma; \<open>None\<close> for any other text. So a text for which
  the result is not \<open>None\<close> is a JSON object, and a text of the shape \<open>{"a":x,"b":y}\<close> in
  which \<open>x\<close> or \<open>y\<close> is no JSON value gives \<open>None\<close>.
\<close>

definition json_fields :: "string \<Rightarrow> string list option" where
  "json_fields s =
     (case s of
        [] \<Rightarrow> None
      | c # rest \<Rightarrow>
          if c = CHR ''{'' \<and> rest \<noteq> [] \<and> last rest = CHR ''}'' then
            (if butlast rest = [] then Some []
             else (let ks = map member_key (split_on (CHR '','') (butlast rest))
                   in if list_all (\<lambda>k. k \<noteq> None) ks then Some (map the ks) else None))
          else None)"

subsection \<open>What an iteration of the stream owes\<close>





text \<open>The frames an iteration has to give back, and the blocks it has to free.\<close>

definition frames_due :: "iter_env \<Rightarrow> camera_fb_t list" where
  "frames_due e = (case fb_get e of None \<Rightarrow> [] | Some f \<Rightarrow> [f])"

definition blocks_due :: "iter_env \<Rightarrow> heap_block list" where
  "blocks_due e =
     (case fb_get e of
        None \<Rightarrow> []
      | Some f \<Rightarrow>
          if format f \<noteq> PIXFORMAT_JPEG then
            (case jpg_out e of None \<Rightarrow> [] | Some (b, n) \<Rightarrow> [Jpg_buf b])
          else [])"

subsection \<open>Sample inputs\<close>

definition jpeg_frame :: camera_fb_t where
  "jpeg_frame = \<lparr>buf = ''JFIF'', len = 4, format = PIXFORMAT_JPEG\<rparr>"

definition raw_frame :: camera_fb_t where
  "raw_frame = \<lparr>buf = ''RGBRGB'', len = 6, format = PIXFORMAT_RGB565\<rparr>"

text \<open>An iteration with a JPEG frame, one with a raw frame that is converted.\<close>

definition jpeg_iter :: iter_env where
  "jpeg_iter =
     \<lparr>fb_get = Some jpeg_frame, jpg_out = None,
      send_hdr = ESP_OK, send_jpg = ESP_OK, send_bnd = ESP_OK\<rparr>"

definition raw_iter :: iter_env where
  "raw_iter =
     \<lparr>fb_get = Some raw_frame, jpg_out = Some (''JPG'', 3),
      send_hdr = ESP_OK, send_jpg = ESP_OK, send_bnd = ESP_OK\<rparr>"

text \<open>An iteration in which the client has gone: the write of the JPEG bytes fails.\<close>

definition closed_iter :: iter_env where
  "closed_iter =
     \<lparr>fb_get = Some jpeg_frame, jpg_out = None,
      send_hdr = ESP_OK, send_jpg = ESP_FAIL, send_bnd = ESP_OK\<rparr>"

text \<open>A sensor whose setters take a value in range and refuse any other.\<close>

definition demo_sensor :: sensor_t where
  "demo_sensor =
     \<lparr>pixformat = PIXFORMAT_JPEG,
      status = \<lparr>framesize = 5, quality = 10, brightness = 0, contrast = 0\<rparr>,
      set_framesize =
        (\<lambda>st v. if 0 \<le> v \<and> v \<le> 13 then (0, st\<lparr>framesize := nat v\<rparr>) else (- 1, st)),
      set_quality =
        (\<lambda>st v. if 0 \<le> v \<and> v \<le> 63 then (0, st\<lparr>quality := word_of_int v\<rparr>) else (- 1, st)),
      set_contrast =
        (\<lambda>st v. if - 2 \<le> v \<and> v \<le> 2 then (0, st\<lparr>contrast := word_of_int v\<rparr>) else (- 1, st)),
      set_brightness =
        (\<lambda>st v. if - 2 \<le> v \<and> v \<le> 2 then (0, st\<lparr>brightness := word_of_int v\<rparr>)
                else (- 1, st))\<rparr>"

text \<open>Globals in which a float is the text that \<open>%.1f\<close> prints for it.\<close>

definition demo_globals :: "string globals" where
  "demo_globals =
     \<lparr>sensor = demo_sensor, temperature = ''23.5'', humidity = ''40.0'', soilMoisture = 55,
      json_response = []\<rparr>"

text \<open>Globals in which the reading of the temperature has failed and left a NaN.\<close>

definition nan_globals :: "c_float globals" where
  "nan_globals =
     \<lparr>sensor = demo_sensor, temperature = NaN False, humidity = Finite False 5 3,
      soilMoisture = 55, json_response = []\<rparr>"

text \<open>The request \<open>/control?var=bogus&val=1\<close>.\<close>

definition bogus_request :: cmd_env where
  "bogus_request =
     \<lparr>query_len = 15, malloc_ok = True, query_str = ESP_OK,
      query_var = (ESP_OK, ''bogus''), query_val = (ESP_OK, ''1''), send_res = ESP_OK\<rparr>"

text \<open>The request \<open>/control?var=framesize&val=7\<close>.\<close>

definition framesize_request :: cmd_env where
  "framesize_request =
     \<lparr>query_len = 19, malloc_ok = True, query_str = ESP_OK,
      query_var = (ESP_OK, ''framesize''), query_val = (ESP_OK, ''7''), send_res = ESP_OK\<rparr>"

text \<open>A capture in which no frame is to be had, and one with a raw frame.\<close>

definition no_frame_capture :: capture_env where
  "no_frame_capture =
     \<lparr>cap_fb = None, cap_send = ESP_OK, cap_blocks = [], cap_converted = False,
      cap_send_last = ESP_OK\<rparr>"

definition raw_capture :: capture_env where
  "raw_capture =
     \<lparr>cap_fb = Some raw_frame, cap_send = ESP_OK,
      cap_blocks = [(Some ''JP'', 2, ESP_OK), (Some ''G'', 1, ESP_FAIL)],
      cap_converted = False, cap_send_last = ESP_FAIL\<rparr>"

section \<open>Properties\<close>

subsection \<open>Numbers in decimal\<close>

declare fmt_u.simps [simp del]

lemma digit_cases:
  "d < 10 \<Longrightarrow>
   d = 0 \<or> d = 1 \<or> d = 2 \<or> d = 3 \<or> d = 4 \<or> d = 5 \<or> d = 6 \<or> d = 7 \<or> d = 8 \<or> d = (9::nat)"
  by arith

lemma digit_val_digit_char: "d < 10 \<Longrightarrow> digit_val (digit_char d) = d"
  using digit_cases [of d] by (auto simp: digit_val_def digit_char_def)

lemma is_digit_digit_char: "d < 10 \<Longrightarrow> is_digit (digit_char d)"
  using digit_cases [of d] by (auto simp: is_digit_def digit_char_def)

lemma fmt_u_digits: "c \<in> set (fmt_u n) \<Longrightarrow> is_digit c"
proof (induction n rule: fmt_u.induct)
  case (1 n)
  from 1(2) have
    "c \<in> set (if n < 10 then [digit_char n] else fmt_u (n div 10) @ [digit_char (n mod 10)])"
    by (subst (asm) fmt_u.simps)
  then show ?case using 1(1) by (auto simp: is_digit_digit_char split: if_splits)
qed

lemma fmt_u_not_Nil: "fmt_u n \<noteq> []"
  by (subst fmt_u.simps) simp

lemma length_fmt_u: "0 < k \<Longrightarrow> n < 10 ^ k \<Longrightarrow> length (fmt_u n) \<le> k"
proof (induction n arbitrary: k rule: fmt_u.induct)
  case (1 n)
  show ?case
  proof (cases "n < 10")
    case True
    with 1(2) show ?thesis by (subst fmt_u.simps) simp
  next
    case False
    then obtain j where k: "k = Suc j" using 1(2) by (cases k) auto
    from False 1(3) k have "0 < j" by (cases j) auto
    moreover from 1(3) k have "n div 10 < 10 ^ j"
      by (simp add: less_mult_imp_div_less mult.commute)
    ultimately have "length (fmt_u (n div 10)) \<le> j" using 1(1) False by simp
    with False k show ?thesis by (subst fmt_u.simps) simp
  qed
qed

lemma length_fmt_u_size_t: "length (fmt_u (unat (n :: size_t))) \<le> 10"
proof -
  have "unat n < 2 ^ 32" using unsigned_less [of n] by simp
  then have "unat n < 10 ^ 10" by simp
  then show ?thesis by (rule length_fmt_u [rotated]) simp
qed

lemma parse_dec_snoc: "parse_dec (ds @ [c]) = 10 * parse_dec ds + digit_val c"
  by (simp add: parse_dec_def)

lemma parse_dec_fmt_u: "parse_dec (fmt_u n) = n"
proof (induction n rule: fmt_u.induct)
  case (1 n)
  show ?case
  proof (cases "n < 10")
    case True
    then show ?thesis by (subst fmt_u.simps) (simp add: parse_dec_def digit_val_digit_char)
  next
    case False
    with 1 have "parse_dec (fmt_u (n div 10)) = n div 10" by simp
    with False show ?thesis
      by (subst fmt_u.simps) (simp add: parse_dec_snoc digit_val_digit_char)
  qed
qed

lemma fmt_u_no_comma: "CHR '','' \<notin> set (fmt_u n)"
  using fmt_u_digits [of "CHR '',''" n] by (auto simp: is_digit_def)

lemma fmt_d_no_comma: "CHR '','' \<notin> set (fmt_d i)"
  by (simp add: fmt_d_def fmt_u_no_comma)

subsection \<open>The part header\<close>

text \<open>The header always fits the 64 bytes that \<open>snprintf\<close> may fill: nothing is cut off.\<close>

lemma length_STREAM_PART: "length (STREAM_PART n) \<le> 56"
  using length_fmt_u_size_t [of n] by (simp add: STREAM_PART_def CRLF_def)

lemma snprintf_STREAM_PART:
  "snprintf 64 (STREAM_PART n) = (STREAM_PART n, length (STREAM_PART n))"
  using length_STREAM_PART [of n] by (simp add: snprintf_def)




subsection \<open>One iteration of the stream\<close>

lemmas iter_defs = stream_iter_def acquire_def write_part_def write_jpg_def
  write_boundary_def release_def

lemma stream_iter_res:
  assumes "res st = ESP_OK"
  shows "res (snd (stream_iter e st)) \<noteq> ESP_OK \<longleftrightarrow> failure_recorded (fst (stream_iter e st))"
  using assms
  by (auto simp: iter_defs failure_recorded_def snprintf_STREAM_PART ESP_OK_def ESP_FAIL_def
      split: option.splits if_splits prod.splits)

lemma stream_iter_ptrs:
  "fb (snd (stream_iter e st)) = None \<and>
   (jpg_buf st = None \<longrightarrow> jpg_buf (snd (stream_iter e st)) = None)"
  by (auto simp: iter_defs snprintf_STREAM_PART split: option.splits if_splits prod.splits)

lemma stream_iter_balance:
  assumes "jpg_buf st = None"
  shows "returned (fst (stream_iter e st)) = frames_due e \<and>
         freed (fst (stream_iter e st)) = blocks_due e"
  using assms
  by (auto simp: iter_defs returned_def freed_def frames_due_def blocks_due_def
      snprintf_STREAM_PART split: option.splits if_splits prod.splits)



subsection \<open>The loop\<close>



lemma stream_loop_inv:
  assumes "res st = ESP_OK" and "stream_loop envs st = (logs, r)"
  shows "(\<forall>i<length logs. failure_recorded (logs ! i) \<longleftrightarrow> (Suc i = length logs \<and> r \<noteq> None)) \<and>
         (r = None \<longrightarrow> length logs = length envs) \<and>
         (\<forall>v. r = Some v \<longrightarrow> v \<noteq> ESP_OK) \<and>
         length logs \<le> length envs"
  using assms
proof (induction envs arbitrary: st logs r)
  case Nil
  then show ?case by simp
next
  case (Cons e envs)
  obtain evs st' where it: "stream_iter e st = (evs, st')" by (cases "stream_iter e st")
  from Cons.prems(1) it have fr: "res st' \<noteq> ESP_OK \<longleftrightarrow> failure_recorded evs"
    using stream_iter_res [of st e] by simp
  show ?case
  proof (cases "res st' \<noteq> ESP_OK")
    case True
    with Cons.prems(2) it have "logs = [evs]" and "r = Some (res st')" by simp_all
    with True fr show ?thesis by simp
  next
    case False
    obtain rest r' where lp: "stream_loop envs st' = (rest, r')"
      by (cases "stream_loop envs st'")
    with False Cons.prems(2) it have lg: "logs = evs # rest" and r: "r = r'" by simp_all
    from False lp have IH:
      "(\<forall>i<length rest. failure_recorded (rest ! i) \<longleftrightarrow> (Suc i = length rest \<and> r' \<noteq> None)) \<and>
       (r' = None \<longrightarrow> length rest = length envs) \<and>
       (\<forall>v. r' = Some v \<longrightarrow> v \<noteq> ESP_OK) \<and> length rest \<le> length envs"
      using Cons.IH [of st' rest r'] by simp
    have ne: "r' \<noteq> None \<longrightarrow> rest \<noteq> []"
      using lp by (cases envs) (auto split: prod.splits if_splits)
    have "failure_recorded (logs ! i) \<longleftrightarrow> (Suc i = length logs \<and> r \<noteq> None)"
      if "i < length logs" for i
    proof (cases i)
      case 0
      with False fr lg r ne show ?thesis by auto
    next
      case (Suc j)
      with that lg r IH show ?thesis by simp
    qed
    with IH lg r show ?thesis by simp
  qed
qed

lemma balance_from_state:
  assumes "jpg_buf st = None"
  shows "map returned (fst (stream_loop envs st)) =
           map frames_due (take (length (fst (stream_loop envs st))) envs) \<and>
         map freed (fst (stream_loop envs st)) =
           map blocks_due (take (length (fst (stream_loop envs st))) envs)"
  using assms
proof (induction envs arbitrary: st)
  case Nil
  then show ?case by simp
next
  case (Cons e envs)
  obtain evs st' where it: "stream_iter e st = (evs, st')" by (cases "stream_iter e st")
  from Cons.prems it have bal: "returned evs = frames_due e" "freed evs = blocks_due e"
    using stream_iter_balance [of st e] by simp_all
  from Cons.prems it have "jpg_buf st' = None" using stream_iter_ptrs [of e st] by simp
  then have IH: "map returned (fst (stream_loop envs st')) =
           map frames_due (take (length (fst (stream_loop envs st'))) envs) \<and>
         map freed (fst (stream_loop envs st')) =
           map blocks_due (take (length (fst (stream_loop envs st'))) envs)"
    by (rule Cons.IH)
  with it bal show ?case by (auto split: prod.splits)
qed

subsection \<open>Traces of the other handlers\<close>

lemma returned_append: "returned (a @ b) = returned a @ returned b"
  by (simp add: returned_def)

lemma returned_Cons: "returned (ev # evs) = returned_of ev @ returned evs"
  by (simp add: returned_def)

lemma returned_Nil: "returned [] = []"
  by (simp add: returned_def)

lemma returned_frame2jpg_cb: "frame2jpg_cb blocks i j = (evs, j') \<Longrightarrow> returned evs = []"
  by (induction blocks i j arbitrary: evs j' rule: frame2jpg_cb.induct)
     (auto simp: returned_Cons returned_Nil jpg_encode_stream_def Let_def
      split: prod.splits if_splits)

text \<open>Once the cross-origin field is set, every head that follows carries it.\<close>

lemma heads_cors:
  "(''Access-Control-Allow-Origin'', ''*'') \<in> set hs \<Longrightarrow>
   list_all has_cors (heads t hs sent evs)"
  by (induction t hs sent evs rule: heads.induct) (simp_all add: has_cors_def)

subsection \<open>Printed numbers are JSON numbers\<close>

lemma fmt_u_0: "fmt_u 0 = ''0''"
  by (subst fmt_u.simps) (simp add: digit_char_def)

lemma fmt_u_eq_0: "fmt_u n = ''0'' \<Longrightarrow> n = 0"
proof -
  assume "fmt_u n = ''0''"
  then have "parse_dec (fmt_u n) = parse_dec ''0''" by simp
  then have "n = parse_dec ''0''" by (simp only: parse_dec_fmt_u)
  then show "n = 0" by (simp add: parse_dec_def digit_val_def)
qed

lemma hd_fmt_u: "0 < n \<Longrightarrow> hd (fmt_u n) \<noteq> CHR ''0''"
proof (induction n rule: fmt_u.induct)
  case (1 n)
  show ?case
  proof (cases "n < 10")
    case True
    with 1(2) show ?thesis
      using digit_cases [of n] by (subst fmt_u.simps) (auto simp: digit_char_def)
  next
    case False
    then have "0 < n div 10" by simp
    with 1(1) False have "hd (fmt_u (n div 10)) \<noteq> CHR ''0''" by simp
    with False show ?thesis by (subst fmt_u.simps) (simp add: fmt_u_not_Nil)
  qed
qed

lemma fmt_u_leading: "hd (fmt_u n) = CHR ''0'' \<Longrightarrow> fmt_u n = ''0''"
  using hd_fmt_u [of n] fmt_u_0 by (cases "n = 0") auto

lemma fmt_u_all_digits: "list_all is_digit (fmt_u n)"
  by (simp add: list_all_iff fmt_u_digits)

lemma takeWhile_digits_then:
  "list_all is_digit ds \<Longrightarrow> r = [] \<or> \<not> is_digit (hd r) \<Longrightarrow>
   takeWhile is_digit (ds @ r) = ds \<and> dropWhile is_digit (ds @ r) = r"
  by (cases r) (auto simp: list_all_iff takeWhile_append dropWhile_append)

lemma strip_minus_digits:
  "is_digit (hd u) \<Longrightarrow>
   (case u of [] \<Rightarrow> [] | c # cs \<Rightarrow> if c = CHR ''-'' then cs else u) = u"
  by (cases u) (auto simp: is_digit_def)

lemma hd_fmt_u_digit: "is_digit (hd (fmt_u n @ r))"
  using fmt_u_digits [of "hd (fmt_u n)" n] fmt_u_not_Nil [of n] by simp

text \<open>Digits as \<open>%u\<close> prints them, followed by a fraction or nothing, make a JSON number.\<close>

lemma json_number_unsigned:
  assumes "json_frac r" and "r = [] \<or> \<not> is_digit (hd r)"
  shows "json_number (fmt_u n @ r)"
proof -
  have tw: "takeWhile is_digit (fmt_u n @ r) = fmt_u n \<and> dropWhile is_digit (fmt_u n @ r) = r"
    using fmt_u_all_digits assms(2) by (rule takeWhile_digits_then)
  have st: "(case fmt_u n @ r of [] \<Rightarrow> [] | c # cs \<Rightarrow> if c = CHR ''-'' then cs else fmt_u n @ r)
      = fmt_u n @ r"
    using hd_fmt_u_digit by (rule strip_minus_digits)
  show ?thesis
    unfolding json_number_def st Let_def
    using tw assms(1) fmt_u_leading [of n] by (simp add: fmt_u_not_Nil)
qed

lemma json_number_signed:
  assumes "json_frac r" and "r = [] \<or> \<not> is_digit (hd r)"
  shows "json_number (CHR ''-'' # fmt_u n @ r)"
proof -
  have tw: "takeWhile is_digit (fmt_u n @ r) = fmt_u n \<and> dropWhile is_digit (fmt_u n @ r) = r"
    using fmt_u_all_digits assms(2) by (rule takeWhile_digits_then)
  show ?thesis
    unfolding json_number_def Let_def
    using tw assms(1) fmt_u_leading [of n] by (simp add: fmt_u_not_Nil)
qed

lemma json_frac_Nil: "json_frac []"
  by (simp add: json_frac_def)

lemma json_frac_digit: "d < 10 \<Longrightarrow> json_frac (CHR ''.'' # [digit_char d])"
  by (simp add: json_frac_def json_exp_def is_digit_digit_char)

lemma json_value_fmt_u: "json_value (fmt_u n)"
  using json_number_unsigned [of "[]" n] by (simp add: json_value_def json_frac_Nil)

lemma json_value_fmt_d: "json_value (fmt_d i)"
  using json_number_unsigned [of "[]"] json_number_signed [of "[]"]
  by (simp add: json_value_def json_frac_Nil fmt_d_def)

lemma json_value_fmt_f1: "is_finite x \<Longrightarrow> json_value (fmt_f1 x)"
proof (cases x)
  case (Finite s m e)
  have d: "tenths m e mod 10 < 10" by simp
  have nd: "\<not> is_digit (CHR ''.'')" by (simp add: is_digit_def)
  have "json_number (fmt_u (tenths m e div 10) @ CHR ''.'' # [digit_char (tenths m e mod 10)])"
    using json_frac_digit [OF d] nd by (intro json_number_unsigned) simp_all
  moreover have
    "json_number (CHR ''-'' # fmt_u (tenths m e div 10) @
       CHR ''.'' # [digit_char (tenths m e mod 10)])"
    using json_frac_digit [OF d] nd by (intro json_number_signed) simp_all
  ultimately show ?thesis using Finite by (simp add: json_value_def)
qed simp_all

lemma fmt_f1_no_comma: "is_finite x \<Longrightarrow> CHR '','' \<notin> set (fmt_f1 x)"
proof (cases x)
  case (Finite s m e)
  have "tenths m e mod 10 < 10" by simp
  then have "is_digit (digit_char (tenths m e mod 10))" by (rule is_digit_digit_char)
  then have "digit_char (tenths m e mod 10) \<noteq> CHR '',''" by (auto simp: is_digit_def)
  with Finite show ?thesis by (simp add: fmt_u_no_comma)
qed simp_all

subsection \<open>Splitting the status object\<close>

lemma split_on_no_sep: "c \<notin> set a \<Longrightarrow> split_on c a = [a]"
  by (induction a) auto

lemma split_on_sep: "c \<notin> set a \<Longrightarrow> split_on c (a @ c # b) = a # split_on c b"
  by (induction a) auto

lemma json_char_not_quote: "list_all json_char k \<Longrightarrow> DQUOTE \<notin> set k"
  by (auto simp: list_all_iff json_char_def)

lemma member_key_json_key:
  assumes "list_all json_char k" and "json_value v"
  shows "member_key (json_key k @ v) = Some k"
proof -
  have q: "DQUOTE \<notin> set k" using assms(1) by (rule json_char_not_quote)
  then have "takeWhile (\<lambda>c. c \<noteq> DQUOTE) (k @ DQUOTE # CHR '':'' # v) = k"
    and "dropWhile (\<lambda>c. c \<noteq> DQUOTE) (k @ DQUOTE # CHR '':'' # v) = DQUOTE # CHR '':'' # v"
    by (simp_all add: takeWhile_append dropWhile_append)
  with assms show ?thesis by (simp add: member_key_def json_key_def)
qed

lemma json_key_no_comma: "CHR '','' \<notin> set k \<Longrightarrow> CHR '','' \<notin> set (json_key k)"
  by (simp add: json_key_def DQUOTE_def)

text \<open>
  With finite readings the body that \<open>status_handler\<close> sends is a JSON object with its
  seven fields in the order of the \<open>sprintf\<close> calls.
\<close>

lemma status_json_finite:
  assumes "is_finite (temperature g)" and "is_finite (humidity g)"
  shows "json_fields (status_json fmt_f1 g) =
           Some [''framesize'', ''quality'', ''brightness'', ''contrast'', ''temperature'',
                 ''humidity'', ''soilMoisture'']"
proof -
  define m1 where "m1 = json_key ''framesize'' @ fmt_u (framesize (status (sensor g)))"
  define m2 where "m2 = json_key ''quality'' @ fmt_u (unat (quality (status (sensor g))))"
  define m3 where "m3 = json_key ''brightness'' @ fmt_d (sint (brightness (status (sensor g))))"
  define m4 where "m4 = json_key ''contrast'' @ fmt_d (sint (contrast (status (sensor g))))"
  define m5 where "m5 = json_key ''temperature'' @ fmt_f1 (temperature g)"
  define m6 where "m6 = json_key ''humidity'' @ fmt_f1 (humidity g)"
  define m7 where "m7 = json_key ''soilMoisture'' @ fmt_d (soilMoisture g)"
  note ms = m1_def m2_def m3_def m4_def m5_def m6_def m7_def
  have body: "status_json fmt_f1 g =
      CHR ''{'' # (m1 @ CHR '','' # m2 @ CHR '','' # m3 @ CHR '','' # m4 @ CHR '','' # m5 @
                   CHR '','' # m6 @ CHR '','' # m7) @ [CHR ''}'']"
    by (simp add: status_json_def ms)
  have nc: "CHR '','' \<notin> set m1" "CHR '','' \<notin> set m2" "CHR '','' \<notin> set m3"
    "CHR '','' \<notin> set m4" "CHR '','' \<notin> set m5" "CHR '','' \<notin> set m6" "CHR '','' \<notin> set m7"
    using assms
    by (simp_all add: ms json_key_no_comma fmt_u_no_comma fmt_d_no_comma fmt_f1_no_comma)
  have sp: "split_on (CHR '','') (m1 @ CHR '','' # m2 @ CHR '','' # m3 @ CHR '','' # m4 @
       CHR '','' # m5 @ CHR '','' # m6 @ CHR '','' # m7) = [m1, m2, m3, m4, m5, m6, m7]"
    using nc by (simp add: split_on_sep split_on_no_sep)
  have names: "list_all json_char ''framesize''" "list_all json_char ''quality''"
    "list_all json_char ''brightness''" "list_all json_char ''contrast''"
    "list_all json_char ''temperature''" "list_all json_char ''humidity''"
    "list_all json_char ''soilMoisture''"
    by (simp_all add: json_char_def DQUOTE_def)
  have ks: "map member_key [m1, m2, m3, m4, m5, m6, m7] =
      map Some [''framesize'', ''quality'', ''brightness'', ''contrast'', ''temperature'',
           ''humidity'', ''soilMoisture'']"
    using assms names
    by (simp add: ms member_key_json_key json_value_fmt_u json_value_fmt_d json_value_fmt_f1)
  have ne: "m1 \<noteq> []" by (simp add: m1_def json_key_def)
  show ?thesis
    unfolding body json_fields_def
    using ne by (simp only: list.case butlast_snoc last_snoc sp ks) simp
qed

lemma chunk_events_frame2jpg_cb:
  "frame2jpg_cb blocks i j = (evs, j') \<Longrightarrow> list_all (\<lambda>ev. chunk_of ev \<noteq> []) evs"
  by (induction blocks i j arbitrary: evs j' rule: frame2jpg_cb.induct)
     (auto simp: jpg_encode_stream_def Let_def split: prod.splits if_splits)

lemma heads_chunks_sent:
  "list_all (\<lambda>ev. chunk_of ev \<noteq> []) evs \<Longrightarrow> heads t hs True (evs @ rest) = heads t hs True rest"
  by (induction t hs "True" evs rule: heads.induct) simp_all

lemma heads_chunks_first:
  "list_all (\<lambda>ev. chunk_of ev \<noteq> []) evs \<Longrightarrow> evs \<noteq> [] \<Longrightarrow>
   heads t hs False (evs @ rest) =
     \<lparr>status_line = ''200 OK'', content_type = t, hdrs = hs\<rparr> # heads t hs True rest"
  by (cases evs; cases "hd evs") (simp_all add: heads_chunks_sent)

text \<open>A capture that got a frame answers with one head, whichever way the frame is sent.\<close>

lemma capture_responses:
  "cap_fb env = Some f \<Longrightarrow>
   responses (fst (capture_handler env)) =
     [\<lparr>status_line = ''200 OK'', content_type = ''image/jpeg'',
       hdrs = [(''Content-Disposition'', ''inline; filename=capture.jpg''),
               (''Access-Control-Allow-Origin'', ''*'')]\<rparr>]"
proof (cases "format f = PIXFORMAT_JPEG")
  case True
  assume "cap_fb env = Some f"
  with True show ?thesis by (simp add: capture_handler_def responses_def)
next
  case False
  assume fb: "cap_fb env = Some f"
  obtain evs j where cb: "frame2jpg_cb (cap_blocks env) 0 0 = (evs, j)"
    by (cases "frame2jpg_cb (cap_blocks env) 0 0")
  have ch: "list_all (\<lambda>ev. chunk_of ev \<noteq> []) evs" using cb by (rule chunk_events_frame2jpg_cb)
  show ?thesis
  proof (cases "evs = []")
    case True
    with False fb cb show ?thesis by (simp add: capture_handler_def responses_def)
  next
    case ne: False
    with False fb cb ch show ?thesis
      by (simp add: capture_handler_def responses_def heads_chunks_first)
  qed
qed

lemmas sample_defs = jpeg_iter_def raw_iter_def closed_iter_def jpeg_frame_def raw_frame_def
  stream_init_def ESP_OK_def ESP_FAIL_def

section \<open>The claims\<close>

subsection \<open>C1: order of the three writes\<close>

text \<open>
  C1 as stated: every iteration that reaches the write step writes the boundary marker
  first (also before the very first frame), then the part header, then the JPEG bytes.
  The code does not: in the first iteration of a stream, with a JPEG frame and every write
  answered \<open>ESP_OK\<close>, the chunks are header, bytes, boundary.
\<close>

theorem stream_boundary_first_counterexample:
  "map fst (chunks (fst (stream_iter jpeg_iter stream_init))) =
     [Some (STREAM_PART 4), Some ''JFIF'', Some STREAM_BOUNDARY] \<and>
   map fst (chunks (fst (stream_iter jpeg_iter stream_init))) \<noteq>
     [Some STREAM_BOUNDARY, Some (STREAM_PART 4), Some ''JFIF'']"
proof -
  have "map fst (chunks (fst (stream_iter jpeg_iter stream_init))) =
     [Some (STREAM_PART 4), Some ''JFIF'', Some STREAM_BOUNDARY]"
    by (simp add: iter_defs sample_defs chunks_def snprintf_STREAM_PART)
  moreover have "STREAM_PART 4 \<noteq> STREAM_BOUNDARY"
    by (simp add: STREAM_PART_def STREAM_BOUNDARY_def CRLF_def)
  ultimately show ?thesis by simp
qed

text \<open>
  C1, amended: in every iteration that reaches the write step (\<open>res\<close> is \<open>ESP_OK\<close> at
  line 112), the handler writes, each as a chunk of its own and in this order, the part
  header, then the JPEG bytes, then the boundary marker; a write is made only if the one
  before it answered \<open>ESP_OK\<close>.
\<close>

theorem stream_iter_write_order:
  assumes "snd (acquire e st) = s1" and "res s1 = ESP_OK"
  shows "chunks (fst (stream_iter e st)) =
     (Some (STREAM_PART (jpg_buf_len s1)), of_nat (length (STREAM_PART (jpg_buf_len s1))),
      send_hdr e) #
     (if send_hdr e = ESP_OK then
        (jpg_buf s1, jpg_buf_len s1, send_jpg e) #
        (if send_jpg e = ESP_OK then
           [(Some STREAM_BOUNDARY, of_nat (length STREAM_BOUNDARY), send_bnd e)]
         else [])
      else [])"
  using assms
  by (auto simp: iter_defs chunks_def snprintf_STREAM_PART ESP_OK_def ESP_FAIL_def
      split: option.splits if_splits prod.splits)

theorem stream_iter_write_order_witness:
  "res (snd (acquire raw_iter stream_init)) = ESP_OK \<and>
   map fst (chunks (fst (stream_iter raw_iter stream_init))) =
     [Some (STREAM_PART 3), Some ''JPG'', Some STREAM_BOUNDARY]"
proof -
  have s1: "snd (acquire raw_iter stream_init) =
      \<lparr>fb = None, res = ESP_OK, jpg_buf_len = 3, jpg_buf = Some ''JPG''\<rparr>"
    by (simp add: acquire_def sample_defs)
  have ok: "res \<lparr>fb = None, res = ESP_OK, jpg_buf_len = 3, jpg_buf = Some ''JPG''\<rparr> = ESP_OK"
    by simp
  show ?thesis
    using stream_iter_write_order [OF s1 ok] s1 by (simp add: raw_iter_def)
qed

subsection \<open>C2: one part per frame, with the length announced\<close>



subsection \<open>C3: frames given back, buffers freed\<close>

text \<open>
  C3 as stated: for each frame acquired, exactly one of \<open>esp_camera_fb_return\<close> and
  \<open>free\<close> occurs in the iteration, never both. The code does both for a frame that is
  not JPEG and is converted: the raw frame goes back to the driver at line 101 and the
  buffer of the encoder is freed at line 127.
\<close>

theorem stream_release_and_free_counterexample:
  "returned (fst (stream_iter raw_iter stream_init)) = [raw_frame] \<and>
   freed (fst (stream_iter raw_iter stream_init)) = [Jpg_buf ''JPG'']"
  by (simp add: iter_defs sample_defs returned_def freed_def snprintf_STREAM_PART)

text \<open>
  C3, amended: in every iteration of the loop, whichever of the failure points is hit, a
  frame that was acquired is given back to the driver exactly once, and \<open>free\<close> is called
  exactly once if the frame was not JPEG and was converted (on the buffer of the encoder)
  and not at all otherwise; when acquisition fails, the iteration neither gives back nor
  frees anything.
\<close>

theorem stream_loop_balance:
  "map returned (fst (stream_loop envs stream_init)) =
     map frames_due (take (length (fst (stream_loop envs stream_init))) envs) \<and>
   map freed (fst (stream_loop envs stream_init)) =
     map blocks_due (take (length (fst (stream_loop envs stream_init))) envs)"
  by (rule balance_from_state) (simp add: stream_init_def)

subsection \<open>C4: an unknown parameter name\<close>

text \<open>
  C4 as stated: \<open>/control?var=bogus&val=1\<close> is answered with a 404. The code answers
  with a 500: the last branch of the chain of comparisons sets \<open>res = -1\<close>.
\<close>

theorem cmd_bogus_counterexample:
  "map status_line (responses (fst (cmd_handler bogus_request demo_globals))) =
     [''500 Internal Server Error''] \<and>
   map status_line (responses (fst (cmd_handler bogus_request demo_globals))) \<noteq>
     [''404 Not Found'']"
  by (simp add: cmd_handler_def run_cmd_def apply_var_def bogus_request_def responses_def
      ESP_OK_def)

text \<open>
  C4, amended: a request to \<open>/control\<close> with both parameters present and a name that is
  none of framesize, quality, contrast, brightness, flash is answered with
  \<open>500 Internal Server Error\<close>, and leaves the sensor as it was.
\<close>

theorem cmd_unknown_var:
  assumes "1 < query_len env + 1" and "malloc_ok env" and "query_str env = ESP_OK"
    and "query_var env = (ESP_OK, name)" and "query_val env = (ESP_OK, v)"
    and "name \<notin> {''framesize'', ''quality'', ''contrast'', ''brightness'', ''flash''}"
  shows "cmd_handler env g =
           ([Malloc (unat (query_len env + 1)) True, Free Query_buf, Httpd_resp_send_500],
            send_res env, g) \<and>
         responses (fst (cmd_handler env g)) =
           [\<lparr>status_line = ''500 Internal Server Error'', content_type = ''text/html'',
             hdrs = []\<rparr>]"
  using assms by (simp add: cmd_handler_def run_cmd_def apply_var_def responses_def)

theorem cmd_unknown_var_witness:
  "cmd_handler bogus_request demo_globals =
     ([Malloc 16 True, Free Query_buf, Httpd_resp_send_500], ESP_OK, demo_globals) \<and>
   responses (fst (cmd_handler bogus_request demo_globals)) =
     [\<lparr>status_line = ''500 Internal Server Error'', content_type = ''text/html'', hdrs = []\<rparr>]"
proof -
  have h: "1 < query_len bogus_request + 1" "malloc_ok bogus_request"
    "query_str bogus_request = ESP_OK" "query_var bogus_request = (ESP_OK, ''bogus'')"
    "query_val bogus_request = (ESP_OK, ''1'')"
    "''bogus'' \<notin> {''framesize'', ''quality'', ''contrast'', ''brightness'', ''flash''}"
    by (simp_all add: bogus_request_def)
  show ?thesis
    using cmd_unknown_var [OF h, of demo_globals] by (simp add: bogus_request_def responses_def)
qed

subsection \<open>C5: the cross-origin header\<close>

text \<open>
  C5 as stated: every response of the server carries \<open>Access-Control-Allow-Origin: *\<close>,
  the index page and the error responses included. The index page does not.
\<close>

theorem index_no_cors_counterexample:
  "\<not> list_all has_cors (responses (fst (index_handler ''<html></html>'' ESP_OK)))"
  by (simp add: index_handler_def responses_def has_cors_def)

text \<open>
  C5, amended: the responses of the status and sensors handlers, the response of the
  stream handler, the image response of the capture handler and the success response of
  the control handler carry \<open>Access-Control-Allow-Origin: *\<close>; the index page, the 500
  of the capture handler and the 404 and 500 of the control handler are sent without it.
\<close>

theorem cors_where_set:
  "responses (fst (status_handler fmt_f r1 g)) =
     [\<lparr>status_line = ''200 OK'', content_type = ''application/json'',
       hdrs = [(''Access-Control-Allow-Origin'', ''*'')]\<rparr>] \<and>
   responses (fst (sensors_handler sensorData r2)) =
     [\<lparr>status_line = ''200 OK'', content_type = ''application/json'',
       hdrs = [(''Access-Control-Allow-Origin'', ''*''), (''Cache-Control'', ''no-cache'')]\<rparr>] \<and>
   list_all has_cors (responses (fst (stream_handler senv))) \<and>
   responses (fst (capture_handler cenv)) =
     (case cap_fb cenv of
        None \<Rightarrow>
          [\<lparr>status_line = ''500 Internal Server Error'', content_type = ''text/html'',
            hdrs = []\<rparr>]
      | Some f \<Rightarrow>
          [\<lparr>status_line = ''200 OK'', content_type = ''image/jpeg'',
            hdrs = [(''Content-Disposition'', ''inline; filename=capture.jpg''),
                    (''Access-Control-Allow-Origin'', ''*'')]\<rparr>]) \<and>
   length (responses (fst (cmd_handler env g))) = 1 \<and>
   list_all (\<lambda>h. has_cors h \<longleftrightarrow> status_line h = ''200 OK'')
     (responses (fst (cmd_handler env g))) \<and>
   responses (fst (index_handler page r3)) =
     [\<lparr>status_line = ''200 OK'', content_type = ''text/html'', hdrs = []\<rparr>]"
proof -
  have st: "responses (fst (status_handler fmt_f r1 g)) =
     [\<lparr>status_line = ''200 OK'', content_type = ''application/json'',
       hdrs = [(''Access-Control-Allow-Origin'', ''*'')]\<rparr>]"
    by (simp add: status_handler_def responses_def Let_def)
  have se: "responses (fst (sensors_handler sensorData r2)) =
     [\<lparr>status_line = ''200 OK'', content_type = ''application/json'',
       hdrs = [(''Access-Control-Allow-Origin'', ''*''), (''Cache-Control'', ''no-cache'')]\<rparr>]"
    by (simp add: sensors_handler_def responses_def)
  have sm: "list_all has_cors (responses (fst (stream_handler senv)))"
    by (auto simp: stream_handler_def responses_def heads_cors split: prod.splits)
  have ca: "responses (fst (capture_handler cenv)) =
     (case cap_fb cenv of
        None \<Rightarrow>
          [\<lparr>status_line = ''500 Internal Server Error'', content_type = ''text/html'',
            hdrs = []\<rparr>]
      | Some f \<Rightarrow>
          [\<lparr>status_line = ''200 OK'', content_type = ''image/jpeg'',
            hdrs = [(''Content-Disposition'', ''inline; filename=capture.jpg''),
                    (''Access-Control-Allow-Origin'', ''*'')]\<rparr>])"
  proof (cases "cap_fb cenv")
    case None
    then show ?thesis by (simp add: capture_handler_def responses_def)
  next
    case (Some f)
    then show ?thesis by (simp add: capture_responses)
  qed
  have cm: "length (responses (fst (cmd_handler env g))) = 1 \<and>
     list_all (\<lambda>h. has_cors h \<longleftrightarrow> status_line h = ''200 OK'')
       (responses (fst (cmd_handler env g)))"
    by (auto simp: cmd_handler_def run_cmd_def apply_var_def responses_def has_cors_def Let_def
        split: prod.splits if_splits)
  have ix: "responses (fst (index_handler page r3)) =
     [\<lparr>status_line = ''200 OK'', content_type = ''text/html'', hdrs = []\<rparr>]"
    by (simp add: index_handler_def responses_def)
  from st se sm ca cm ix show ?thesis by simp
qed

subsection \<open>C6: the capture handler gives its frame back\<close>

text \<open>
  C6: when no frame is acquired, the capture handler sends a 500 and gives nothing back
  to the driver; when a frame is acquired it is given back exactly once, also when the
  conversion to JPEG fails.
\<close>

theorem capture_release:
  "(cap_fb env = None \<longrightarrow>
      fst (capture_handler env) =
        [Esp_camera_fb_get None, Serial_println ''Camera capture failed'',
         Httpd_resp_send_500] \<and>
      map status_line (responses (fst (capture_handler env))) =
        [''500 Internal Server Error''] \<and>
      returned (fst (capture_handler env)) = [] \<and>
      snd (capture_handler env) = ESP_FAIL) \<and>
   (\<forall>f. cap_fb env = Some f \<longrightarrow> returned (fst (capture_handler env)) = [f])"
  by (auto simp: capture_handler_def responses_def returned_append returned_Cons returned_Nil
      Let_def returned_frame2jpg_cb split: prod.splits)

theorem capture_release_witness:
  "cap_fb no_frame_capture = None \<and>
   returned (fst (capture_handler no_frame_capture)) = [] \<and>
   map status_line (responses (fst (capture_handler no_frame_capture))) =
     [''500 Internal Server Error''] \<and>
   cap_fb raw_capture = Some raw_frame \<and> snd (capture_handler raw_capture) = ESP_FAIL \<and>
   returned (fst (capture_handler raw_capture)) = [raw_frame]"
proof -
  have a: "cap_fb no_frame_capture = None" by (simp add: no_frame_capture_def)
  have b: "cap_fb raw_capture = Some raw_frame" by (simp add: raw_capture_def)
  have c: "snd (capture_handler raw_capture) = ESP_FAIL"
    by (simp add: capture_handler_def raw_capture_def raw_frame_def Let_def
        split: prod.splits)
  show ?thesis
    using a b c capture_release [of no_frame_capture] capture_release [of raw_capture]
    by (simp add: responses_def returned_def)
qed

subsection \<open>C7: the loop ends at the first failure\<close>

text \<open>
  C7: the loop leaves at the end of an iteration if and only if a failure (no frame, no
  JPEG, or a chunk write not answered \<open>ESP_OK\<close>) was recorded in that iteration. So an
  iteration with a failure is the last one, nothing is tried again after it, the loop
  returns a value other than \<open>ESP_OK\<close>, and as long as no failure is recorded the loop
  goes on.
\<close>

theorem stream_loop_exit:
  assumes "stream_loop envs stream_init = (logs, r)"
  shows "(\<forall>i<length logs. failure_recorded (logs ! i) \<longleftrightarrow> (Suc i = length logs \<and> r \<noteq> None)) \<and>
         (r = None \<longrightarrow> length logs = length envs) \<and>
         (\<forall>v. r = Some v \<longrightarrow> v \<noteq> ESP_OK) \<and>
         length logs \<le> length envs"
  using _ assms by (rule stream_loop_inv) (simp add: stream_init_def)

theorem stream_loop_exit_witness:
  "stream_loop [jpeg_iter, closed_iter, jpeg_iter] stream_init =
     ([fst (stream_iter jpeg_iter stream_init), fst (stream_iter closed_iter stream_init)],
      Some ESP_FAIL) \<and>
   \<not> failure_recorded (fst (stream_iter jpeg_iter stream_init)) \<and>
   failure_recorded (fst (stream_iter closed_iter stream_init))"
proof -
  have run: "stream_loop [jpeg_iter, closed_iter, jpeg_iter] stream_init =
     ([fst (stream_iter jpeg_iter stream_init), fst (stream_iter closed_iter stream_init)],
      Some ESP_FAIL)"
    by (simp add: iter_defs sample_defs snprintf_STREAM_PART)
  note ex = stream_loop_exit [OF run, THEN conjunct1, rule_format]
  show ?thesis
    using run ex [of 0] ex [of 1] by simp
qed

subsection \<open>C8: the fields of the status object\<close>

text \<open>
  C8: the body of the \<open>/status\<close> response is a JSON object with exactly the fields
  framesize, quality, brightness, contrast, temperature, humidity, soilMoisture, in this
  order. The code breaks this when a reading is not finite: with a NaN as temperature the
  handler announces \<open>application/json\<close> and sends a body with the member
  \<open>"temperature":nan\<close>, and \<open>nan\<close> is no JSON value, so the body is not a JSON object.
\<close>

theorem status_nan_not_json:
  "fst (status_handler fmt_f1 ESP_OK nan_globals) =
     [Httpd_resp_set_type ''application/json'',
      Httpd_resp_set_hdr ''Access-Control-Allow-Origin'' ''*'',
      Httpd_resp_send (Some (status_json fmt_f1 nan_globals))
        (of_nat (length (status_json fmt_f1 nan_globals)))] \<and>
   status_json fmt_f1 nan_globals =
     ''{'' @ json_key ''framesize'' @ ''5,'' @ json_key ''quality'' @ ''10,'' @
     json_key ''brightness'' @ ''0,'' @ json_key ''contrast'' @ ''0,'' @
     json_key ''temperature'' @ ''nan,'' @ json_key ''humidity'' @ ''40.0,'' @
     json_key ''soilMoisture'' @ ''55}'' \<and>
   json_value ''nan'' = False \<and>
   json_fields (status_json fmt_f1 nan_globals) = None"
proof -
  have ev: "fst (status_handler fmt_f1 ESP_OK nan_globals) =
     [Httpd_resp_set_type ''application/json'',
      Httpd_resp_set_hdr ''Access-Control-Allow-Origin'' ''*'',
      Httpd_resp_send (Some (status_json fmt_f1 nan_globals))
        (of_nat (length (status_json fmt_f1 nan_globals)))]"
    by (simp add: status_handler_def Let_def)
  have body: "status_json fmt_f1 nan_globals =
     ''{'' @ json_key ''framesize'' @ ''5,'' @ json_key ''quality'' @ ''10,'' @
     json_key ''brightness'' @ ''0,'' @ json_key ''contrast'' @ ''0,'' @
     json_key ''temperature'' @ ''nan,'' @ json_key ''humidity'' @ ''40.0,'' @
     json_key ''soilMoisture'' @ ''55}''"
    by (simp add: status_json_def nan_globals_def demo_sensor_def fmt_d_def fmt_u.simps
        digit_char_def tenths_def)
  have nan: "json_value ''nan'' = False"
    by (simp add: json_value_def json_number_def json_string_def is_digit_def DQUOTE_def)
  have "member_key (json_key ''temperature'' @ ''nan'') = None"
    using nan by (simp add: member_key_def json_key_def DQUOTE_def)
  then have "json_fields (status_json fmt_f1 nan_globals) = None"
    unfolding body by (simp add: json_fields_def json_key_def DQUOTE_def)
  with ev body nan show ?thesis by (intro conjI)
qed

subsection \<open>C9: asking for the status twice\<close>

text \<open>
  C9: two calls of the status handler in a row, with nothing changed in between, send the
  same body, and a call leaves the sensor and the three readings as they were (it only
  rewrites its own buffer, with the same text the second time).
\<close>

theorem status_twice:
  "(let (evs1, r1, g1) = status_handler fmt_f s1 g;
        (evs2, r2, g2) = status_handler fmt_f s2 g1
    in bodies evs1 = [(Some (status_json fmt_f g), of_nat (length (status_json fmt_f g)))] \<and>
       bodies evs2 = bodies evs1 \<and>
       sensor g1 = sensor g \<and> temperature g1 = temperature g \<and> humidity g1 = humidity g \<and>
       soilMoisture g1 = soilMoisture g \<and> g2 = g1)"
  by (simp add: status_handler_def bodies_def status_json_def Let_def)

subsection \<open>C10: framesize on a sensor that is not in JPEG mode\<close>

text \<open>
  C10: \<open>/control?var=framesize&val=...\<close>, with any value, on a sensor whose pixel format
  is not JPEG is answered with the success response (status 200, empty body) and changes
  nothing: no setter is called.
\<close>

theorem cmd_framesize_noop:
  assumes "1 < query_len env + 1" and "malloc_ok env" and "query_str env = ESP_OK"
    and "query_var env = (ESP_OK, ''framesize'')" and "query_val env = (ESP_OK, v)"
    and "pixformat (sensor g) \<noteq> PIXFORMAT_JPEG"
  shows "cmd_handler env g =
           ([Malloc (unat (query_len env + 1)) True, Free Query_buf,
             Httpd_resp_set_hdr ''Access-Control-Allow-Origin'' ''*'', Httpd_resp_send None 0],
            send_res env, g) \<and>
         responses (fst (cmd_handler env g)) =
           [\<lparr>status_line = ''200 OK'', content_type = ''text/html'',
             hdrs = [(''Access-Control-Allow-Origin'', ''*'')]\<rparr>]"
  using assms by (simp add: cmd_handler_def run_cmd_def apply_var_def responses_def)

theorem cmd_framesize_noop_witness:
  "pixformat (sensor (demo_globals\<lparr>sensor := demo_sensor\<lparr>pixformat := PIXFORMAT_RGB565\<rparr>\<rparr>)) \<noteq>
     PIXFORMAT_JPEG \<and>
   cmd_handler framesize_request
     (demo_globals\<lparr>sensor := demo_sensor\<lparr>pixformat := PIXFORMAT_RGB565\<rparr>\<rparr>) =
     ([Malloc 20 True, Free Query_buf,
       Httpd_resp_set_hdr ''Access-Control-Allow-Origin'' ''*'', Httpd_resp_send None 0],
      ESP_OK, demo_globals\<lparr>sensor := demo_sensor\<lparr>pixformat := PIXFORMAT_RGB565\<rparr>\<rparr>)"
proof -
  have h: "1 < query_len framesize_request + 1" "malloc_ok framesize_request"
    "query_str framesize_request = ESP_OK"
    "query_var framesize_request = (ESP_OK, ''framesize'')"
    "query_val framesize_request = (ESP_OK, ''7'')"
    "pixformat (sensor (demo_globals\<lparr>sensor := demo_sensor\<lparr>pixformat := PIXFORMAT_RGB565\<rparr>\<rparr>)) \<noteq>
       PIXFORMAT_JPEG"
    by (simp_all add: framesize_request_def)
  have n: "unat (query_len framesize_request + 1) = 20" "send_res framesize_request = ESP_OK"
    by (simp_all add: framesize_request_def)
  show ?thesis
    using h(6) cmd_framesize_noop [OF h] n by simp
qed

end
